theory Spec2Isabelle
  imports Complex_Main "HOL-Library.Sublist"
begin

section \<open>Comparable discovery for industrial properties (backend/analysis.py)\<close>

text \<open>
  The development embeds the scoring, ranking and facade code of
  \<^verbatim>\<open>backend/analysis.py\<close>:
  \<^item> \<^verbatim>\<open>PropertyData\<close> (a dataclass) is a record;
  \<^item> \<^verbatim>\<open>ComparableDiscoveryAgent\<close> and \<^verbatim>\<open>PropertyAnalysisSystem\<close> are
    records of the attributes their methods read; a method takes the object as
    its \<open>self\<close> argument;
  \<^item> a Python exception is the left injection of a sum type; a returned
    dictionary \<^verbatim>\<open>{'error': msg}\<close> is an ordinary return value;
  \<^item> Python floats are idealised as real numbers: rounding error, infinities and
    NaN are outside the model;
  \<^item> \<^verbatim>\<open>geopy.distance.geodesic(p, q).miles\<close> belongs to a library outside the
    repository. It is a parameter \<open>geodesic_miles\<close> of every function that
    reaches it, and it may fail; each theorem states what it needs from it;
  \<^item> \<^verbatim>\<open>datetime.now().isoformat()\<close> is a string parameter of the
    function that reads the clock.
\<close>

subsection \<open>Exceptions\<close>

text \<open>
  The exceptions the embedded code can raise. \<open>LibraryError\<close> is whatever
  the distance library raises.
\<close>

datatype py_error =
    ZeroDivisionError
  | KeyError string
  | TypeError
  | LibraryError string

subsection \<open>PropertyData\<close>

record PropertyData =
  property_id :: string
  address :: string
  city :: string
  county :: string
  state :: string
  zip_code :: string
  latitude :: real
  longitude :: real
  building_area :: real
  lot_size :: real
  year_built :: int
  zoning :: string
  property_type :: string
  assessed_value :: real
  sale_price :: "real option"
  sale_date :: "string option"
  last_updated :: string

text \<open>
  The keyword dictionary handed to \<^verbatim>\<open>PropertyData(**property_data)\<close>. A field
  is \<open>None\<close> when the key is absent. The three defaulted fields may also be
  present with the value \<^verbatim>\<open>None\<close>, hence the nested option. The dictionaries
  covered are those whose keys are field names and whose values have the
  declared types.
\<close>

record PropertyDict =
  d_property_id :: "string option"
  d_address :: "string option"
  d_city :: "string option"
  d_county :: "string option"
  d_state :: "string option"
  d_zip_code :: "string option"
  d_latitude :: "real option"
  d_longitude :: "real option"
  d_building_area :: "real option"
  d_lot_size :: "real option"
  d_year_built :: "int option"
  d_zoning :: "string option"
  d_property_type :: "string option"
  d_assessed_value :: "real option"
  d_sale_price :: "real option option"
  d_sale_date :: "string option option"
  d_last_updated :: "string option option"

definition dict_is_empty :: "PropertyDict \<Rightarrow> bool" where
  "dict_is_empty d \<longleftrightarrow>
     d_property_id d = None \<and> d_address d = None \<and> d_city d = None \<and>
     d_county d = None \<and> d_state d = None \<and> d_zip_code d = None \<and>
     d_latitude d = None \<and> d_longitude d = None \<and> d_building_area d = None \<and>
     d_lot_size d = None \<and> d_year_built d = None \<and> d_zoning d = None \<and>
     d_property_type d = None \<and> d_assessed_value d = None \<and>
     d_sale_price d = None \<and> d_sale_date d = None \<and> d_last_updated d = None"

text \<open>
  The generated constructor followed by \<^verbatim>\<open>__post_init__\<close>: a missing
  required keyword raises \<^verbatim>\<open>TypeError\<close>; \<^verbatim>\<open>sale_price\<close> and
  \<^verbatim>\<open>sale_date\<close> default to \<^verbatim>\<open>None\<close>; a \<^verbatim>\<open>last_updated\<close> that is
  absent or \<^verbatim>\<open>None\<close> becomes the current time.
\<close>

definition flatten_opt :: "'a option option \<Rightarrow> 'a option" where
  "flatten_opt v = (case v of None \<Rightarrow> None | Some w \<Rightarrow> w)"

definition PropertyData_init :: "string \<Rightarrow> PropertyDict \<Rightarrow> py_error + PropertyData" where
  "PropertyData_init now d =
     (case (d_property_id d, d_address d, d_city d, d_county d, d_state d, d_zip_code d) of
        (Some v_id, Some v_address, Some v_city, Some v_county, Some v_state, Some v_zip) \<Rightarrow>
          (case (d_latitude d, d_longitude d, d_building_area d, d_lot_size d) of
             (Some v_lat, Some v_lon, Some v_area, Some v_lot) \<Rightarrow>
               (case (d_year_built d, d_zoning d, d_property_type d, d_assessed_value d) of
                  (Some v_year, Some v_zoning, Some v_type, Some v_value) \<Rightarrow>
                    Inr \<lparr> property_id = v_id, address = v_address, city = v_city,
                          county = v_county, state = v_state, zip_code = v_zip,
                          latitude = v_lat, longitude = v_lon,
                          building_area = v_area, lot_size = v_lot, year_built = v_year,
                          zoning = v_zoning, property_type = v_type,
                          assessed_value = v_value,
                          sale_price = flatten_opt (d_sale_price d),
                          sale_date = flatten_opt (d_sale_date d),
                          last_updated =
                            (case flatten_opt (d_last_updated d) of
                               None \<Rightarrow> now | Some t \<Rightarrow> t) \<rparr>
                | _ \<Rightarrow> Inl TypeError)
           | _ \<Rightarrow> Inl TypeError)
      | _ \<Rightarrow> Inl TypeError)"

subsection \<open>DataExtractionAgent._validate_property_data\<close>

text \<open>
  The validator of the source. The \<^verbatim>\<open>isinstance\<close> tests hold by typing in
  this model, so what remains is the presence of the six required keys and
  the three range checks. No method of the source calls it.
\<close>

definition validate_property_data :: "PropertyDict \<Rightarrow> bool" where
  "validate_property_data d =
     (case (d_property_id d, d_address d, d_building_area d,
            d_latitude d, d_longitude d, d_zoning d) of
        (Some v_id, Some v_address, Some area, Some lat, Some lon, Some v_zoning) \<Rightarrow>
          if area \<le> 0 then False
          else if \<not> (- 90 \<le> lat \<and> lat \<le> 90) then False
          else if \<not> (- 180 \<le> lon \<and> lon \<le> 180) then False
          else True
      | _ \<Rightarrow> False)"

subsection \<open>ComparableDiscoveryAgent\<close>

type_synonym coords = "real \<times> real"

type_synonym geodesic = "coords \<Rightarrow> coords \<Rightarrow> py_error + real"

record ComparableDiscoveryAgent =
  properties_db :: "PropertyData list"
  weight_factors :: "string \<rightharpoonup> real"

definition ComparableDiscoveryAgent_init :: ComparableDiscoveryAgent where
  "ComparableDiscoveryAgent_init =
     \<lparr> properties_db = [],
       weight_factors =
         [''building_area'' \<mapsto> 0.30,
          ''lot_size'' \<mapsto> 0.20,
          ''age'' \<mapsto> 0.15,
          ''zoning'' \<mapsto> 0.25,
          ''location'' \<mapsto> 0.10] \<rparr>"

definition load_properties ::
  "ComparableDiscoveryAgent \<Rightarrow> PropertyData list \<Rightarrow> ComparableDiscoveryAgent" where
  "load_properties self properties = self\<lparr>properties_db := properties\<rparr>"

definition getitem :: "(string \<rightharpoonup> real) \<Rightarrow> string \<Rightarrow> py_error + real" where
  "getitem d k = (case d k of None \<Rightarrow> Inl (KeyError k) | Some v \<Rightarrow> Inr v)"

text \<open>
  \<^verbatim>\<open>calculate_similarity_score\<close>, in the source's evaluation order: the
  division (which raises \<^verbatim>\<open>ZeroDivisionError\<close> on a zero denominator), the
  library call, then the three weight lookups. The source's parameter
  \<^verbatim>\<open>comp\<close> is \<open>candidate\<close> here, \<open>comp\<close> being function composition
  in HOL.
\<close>

definition calculate_similarity_score ::
  "geodesic \<Rightarrow> ComparableDiscoveryAgent \<Rightarrow> PropertyData \<Rightarrow> PropertyData \<Rightarrow> py_error + real" where
  "calculate_similarity_score geodesic_miles self target candidate =
     (if max (building_area target) (building_area candidate) = 0 then Inl ZeroDivisionError
      else
        let area_ratio = min (building_area target) (building_area candidate)
                         / max (building_area target) (building_area candidate)
        in case geodesic_miles (latitude target, longitude target)
                               (latitude candidate, longitude candidate) of
             Inl e \<Rightarrow> Inl e
           | Inr distance \<Rightarrow>
               let location_score = max 0 (1 - distance / 10);
                   age_diff = \<bar>year_built target - year_built candidate\<bar>;
                   age_score = max 0 (1 - real_of_int age_diff / 50)
               in case getitem (weight_factors self) ''building_area'' of
                    Inl e \<Rightarrow> Inl e
                  | Inr w_area \<Rightarrow>
                      (case getitem (weight_factors self) ''location'' of
                         Inl e \<Rightarrow> Inl e
                       | Inr w_location \<Rightarrow>
                           (case getitem (weight_factors self) ''age'' of
                              Inl e \<Rightarrow> Inl e
                            | Inr w_age \<Rightarrow>
                                Inr (area_ratio * w_area
                                     + location_score * w_location
                                     + age_score * w_age))))"

text \<open>The \<^verbatim>\<open>for\<close> loop of \<^verbatim>\<open>find_comparables\<close>, appending to \<open>results\<close>.\<close>

fun collect_results ::
  "geodesic \<Rightarrow> ComparableDiscoveryAgent \<Rightarrow> PropertyData \<Rightarrow>
   (PropertyData \<times> real) list \<Rightarrow> PropertyData list \<Rightarrow> py_error + (PropertyData \<times> real) list" where
  "collect_results geodesic_miles self target results [] = Inr results"
| "collect_results geodesic_miles self target results (prop # rest) =
     (if property_id prop \<noteq> property_id target then
        (case calculate_similarity_score geodesic_miles self target prop of
           Inl e \<Rightarrow> Inl e
         | Inr score \<Rightarrow>
             collect_results geodesic_miles self target (results @ [(prop, score)]) rest)
      else collect_results geodesic_miles self target results rest)"

text \<open>
  \<^verbatim>\<open>results.sort(key=lambda x: x[1], reverse=True)\<close>: Python's sort is stable,
  and with \<^verbatim>\<open>reverse=True\<close> elements with equal keys still keep their
  original order. That is a stable ascending sort on the negated key.
\<close>

definition sort_by_score_reverse :: "(PropertyData \<times> real) list \<Rightarrow> (PropertyData \<times> real) list" where
  "sort_by_score_reverse results = sort_key (\<lambda>x. - snd x) results"

text \<open>
  The slice \<^verbatim>\<open>xs[:n]\<close>: a negative \<open>n\<close> counts from the end, and the
  bounds are clamped.
\<close>

definition slice_to :: "'a list \<Rightarrow> int \<Rightarrow> 'a list" where
  "slice_to xs n = (if 0 \<le> n then take (nat n) xs else take (length xs - nat (- n)) xs)"

definition find_comparables ::
  "geodesic \<Rightarrow> ComparableDiscoveryAgent \<Rightarrow> PropertyData \<Rightarrow> int \<Rightarrow>
   py_error + (PropertyData \<times> real) list" where
  "find_comparables geodesic_miles self target max_results =
     (case collect_results geodesic_miles self target [] (properties_db self) of
        Inl e \<Rightarrow> Inl e
      | Inr results \<Rightarrow> Inr (slice_to (sort_by_score_reverse results) max_results))"

subsection \<open>PropertyAnalysisSystem\<close>

record PropertyAnalysisSystem =
  comparable_discovery :: ComparableDiscoveryAgent
  properties_database :: "PropertyData list"

record comparable_data =
  comp_property :: PropertyData
  similarity_score :: real
  confidence_level :: string

record analysis_summary =
  total_comparables_found :: nat
  avg_similarity_score :: real
  analysis_date :: string

record analysis_results =
  target_property :: PropertyData
  comparables :: "comparable_data list"
  summary :: analysis_summary

datatype analysis_response =
    ErrorDict string
  | Results analysis_results

text \<open>
  The two error dictionaries of \<^verbatim>\<open>analyze_property_comparables\<close>, under the
  names the specification gives them.
\<close>

definition NotFoundError :: "string \<Rightarrow> analysis_response" where
  "NotFoundError pid = ErrorDict (''Property with ID '' @ pid @ '' not found'')"

definition ArgumentError :: analysis_response where
  "ArgumentError = ErrorDict ''Either property_id or property_data must be provided''"

text \<open>\<^verbatim>\<open>next((p for p in db if p.property_id == pid), None)\<close>\<close>

definition lookup_by_id :: "PropertyData list \<Rightarrow> string \<Rightarrow> PropertyData option" where
  "lookup_by_id db pid = find (\<lambda>p. property_id p = pid) db"

text \<open>
  \<^verbatim>\<open>round(x, 3)\<close> on the idealised reals: the nearest multiple of
  \<open>1/1000\<close>, a tie going to the even multiple.
\<close>

definition round3 :: "real \<Rightarrow> real" where
  "round3 x =
     (let y = x * 1000; f = \<lfloor>y\<rfloor>; r = y - of_int f
      in of_int (if r < 1/2 then f
                 else if 1/2 < r then f + 1
                 else if even f then f else f + 1) / 1000)"

definition confidence_of :: "real \<Rightarrow> string" where
  "confidence_of similarity =
     (if similarity > 0.8 then ''High''
      else if similarity > 0.6 then ''Medium''
      else ''Low'')"

definition make_comparable :: "PropertyData \<times> real \<Rightarrow> comparable_data" where
  "make_comparable c =
     \<lparr> comp_property = fst c,
       similarity_score = round3 (snd c),
       confidence_level = confidence_of (snd c) \<rparr>"

definition build_results ::
  "string \<Rightarrow> PropertyData \<Rightarrow> (PropertyData \<times> real) list \<Rightarrow> analysis_results" where
  "build_results now target cs =
     \<lparr> target_property = target,
       comparables = map make_comparable cs,
       summary =
         \<lparr> total_comparables_found = length cs,
           avg_similarity_score =
             (if cs \<noteq> [] then sum_list (map snd cs) / real (length cs) else 0),
           analysis_date = now \<rparr> \<rparr>"

text \<open>
  Target resolution, the first statement of \<^verbatim>\<open>analyze_property_comparables\<close>.
  \<^verbatim>\<open>if property_id:\<close> and \<^verbatim>\<open>elif property_data:\<close> test truthiness:
  \<^verbatim>\<open>None\<close>, the empty string and the empty dictionary all count as absent.
  The outer sum carries exceptions, the inner one the returned error dictionary.
\<close>

definition resolve_target ::
  "string \<Rightarrow> PropertyAnalysisSystem \<Rightarrow> string option \<Rightarrow> PropertyDict option \<Rightarrow>
   py_error + (analysis_response + PropertyData)" where
  "resolve_target now self pid_arg data_arg =
     (if pid_arg \<noteq> None \<and> pid_arg \<noteq> Some [] then
        (case lookup_by_id (properties_database self) (the pid_arg) of
           None \<Rightarrow> Inr (Inl (NotFoundError (the pid_arg)))
         | Some p \<Rightarrow> Inr (Inr p))
      else if data_arg \<noteq> None \<and> \<not> dict_is_empty (the data_arg) then
        (case PropertyData_init now (the data_arg) of
           Inl e \<Rightarrow> Inl e
         | Inr p \<Rightarrow> Inr (Inr p))
      else Inr (Inl ArgumentError))"

text \<open>
  \<^verbatim>\<open>analyze_property_comparables\<close>. \<open>now_created\<close> is the clock read by
  \<^verbatim>\<open>__post_init__\<close>, \<open>now_analysis\<close> the one read for
  \<^verbatim>\<open>analysis_date\<close>. \<^verbatim>\<open>find_comparables\<close> is called with its default
  \<^verbatim>\<open>max_results=5\<close>.
\<close>

definition analyze_property_comparables ::
  "geodesic \<Rightarrow> string \<Rightarrow> string \<Rightarrow> PropertyAnalysisSystem \<Rightarrow>
   string option \<Rightarrow> PropertyDict option \<Rightarrow> py_error + analysis_response" where
  "analyze_property_comparables geodesic_miles now_created now_analysis self pid_arg data_arg =
     (case resolve_target now_created self pid_arg data_arg of
        Inl e \<Rightarrow> Inl e
      | Inr (Inl err) \<Rightarrow> Inr err
      | Inr (Inr target) \<Rightarrow>
          (case find_comparables geodesic_miles (comparable_discovery self) target 5 of
             Inl e \<Rightarrow> Inl e
           | Inr cs \<Rightarrow> Inr (Results (build_results now_analysis target cs))))"

subsection \<open>The scoring formula as the specification words it\<close>

definition spec_area_ratio :: "PropertyData \<Rightarrow> PropertyData \<Rightarrow> real" where
  "spec_area_ratio a b =
     min (building_area a) (building_area b) / max (building_area a) (building_area b)"

definition spec_location_score :: "real \<Rightarrow> real" where
  "spec_location_score distance_miles = max 0 (1 - distance_miles / 10)"

definition spec_age_score :: "PropertyData \<Rightarrow> PropertyData \<Rightarrow> real" where
  "spec_age_score a b = max 0 (1 - \<bar>real_of_int (year_built a) - real_of_int (year_built b)\<bar> / 50)"

definition spec_score :: "PropertyData \<Rightarrow> PropertyData \<Rightarrow> real \<Rightarrow> real" where
  "spec_score a b distance_miles =
     spec_area_ratio a b * 0.30
     + spec_location_score distance_miles * 0.10
     + spec_age_score a b * 0.15"

subsection \<open>Sample data\<close>

text \<open>
  The custom property of the module's \<^verbatim>\<open>__main__\<close> block and of
  \<^verbatim>\<open>tests/test.py\<close>, with the identifier, building area and year of
  construction left open.
\<close>

definition sample_property :: "string \<Rightarrow> real \<Rightarrow> int \<Rightarrow> PropertyData" where
  "sample_property pid area year =
     \<lparr> property_id = pid, address = ''1234 Custom Industrial Way'', city = ''Chicago'',
       county = ''Cook County'', state = ''IL'', zip_code = ''60601'',
       latitude = 41.8781, longitude = - 87.6298,
       building_area = area, lot_size = 100000, year_built = year,
       zoning = ''M1'', property_type = ''Industrial'', assessed_value = 2000000,
       sale_price = None, sale_date = None, last_updated = ''2024-01-01T00:00:00'' \<rparr>"

definition sample_dict :: "string \<Rightarrow> real \<Rightarrow> int \<Rightarrow> PropertyDict" where
  "sample_dict pid area year =
     \<lparr> d_property_id = Some pid, d_address = Some ''1234 Custom Industrial Way'',
       d_city = Some ''Chicago'', d_county = Some ''Cook County'', d_state = Some ''IL'',
       d_zip_code = Some ''60601'', d_latitude = Some 41.8781, d_longitude = Some (- 87.6298),
       d_building_area = Some area, d_lot_size = Some 100000, d_year_built = Some year,
       d_zoning = Some ''M1'', d_property_type = Some ''Industrial'',
       d_assessed_value = Some 2000000,
       d_sale_price = None, d_sale_date = None, d_last_updated = None \<rparr>"

text \<open>
  A distance to evaluate the code with: 69 miles per degree along each axis.
  It stands in for the library only where the two points coincide, where any
  distance is zero.
\<close>

definition taxicab_miles :: geodesic where
  "taxicab_miles p q = Inr (69 * (\<bar>fst p - fst q\<bar> + \<bar>snd p - snd q\<bar>))"

text \<open>
  \<^verbatim>\<open>PropertyAnalysisSystem()\<close> followed by the two assignments that end
  \<^verbatim>\<open>initialize_system\<close>, for a given list of extracted properties.
\<close>

definition system_with :: "PropertyData list \<Rightarrow> PropertyAnalysisSystem" where
  "system_with all_properties =
     \<lparr> comparable_discovery = load_properties ComparableDiscoveryAgent_init all_properties,
       properties_database = all_properties \<rparr>"

text \<open>Four records at the same coordinates; ``B'' and ``D'' score alike against ``A''.\<close>

definition sample_catalog :: "PropertyData list" where
  "sample_catalog =
     [sample_property ''A'' 50000 2000,
      sample_property ''B'' 25000 2000,
      sample_property ''C'' 50000 1990,
      sample_property ''D'' 25000 2000]"

section \<open>Properties\<close>

subsection \<open>Auxiliary facts about scoring and the collection loop\<close>

lemma load_properties_fields:
  "weight_factors (load_properties self ps) = weight_factors self"
  "properties_db (load_properties self ps) = ps"
  by (simp_all add: load_properties_def)

lemma getitem_init_weights:
  assumes "weight_factors self = weight_factors ComparableDiscoveryAgent_init"
  shows "getitem (weight_factors self) ''building_area'' = Inr 0.30"
    and "getitem (weight_factors self) ''location'' = Inr 0.10"
    and "getitem (weight_factors self) ''age'' = Inr 0.15"
  using assms by (simp_all add: getitem_def ComparableDiscoveryAgent_init_def)

lemma score_closed_form:
  assumes w: "weight_factors self = weight_factors ComparableDiscoveryAgent_init"
    and nz: "max (building_area t) (building_area c) \<noteq> 0"
    and g: "g (latitude t, longitude t) (latitude c, longitude c) = Inr d"
  shows "calculate_similarity_score g self t c = Inr (spec_score t c d)"
  using nz g
  by (simp add: calculate_similarity_score_def getitem_init_weights[OF w] spec_score_def
      spec_area_ratio_def spec_location_score_def spec_age_score_def Let_def)

lemma spec_area_ratio_bounds:
  assumes "0 < building_area a" "0 < building_area b"
  shows "0 < spec_area_ratio a b" "spec_area_ratio a b \<le> 1"
  using assms by (auto simp: spec_area_ratio_def min_def max_def)

lemma spec_location_score_bounds:
  "0 \<le> spec_location_score d" "0 \<le> d \<Longrightarrow> spec_location_score d \<le> 1"
  by (auto simp: spec_location_score_def)

lemma spec_age_score_bounds:
  "0 \<le> spec_age_score a b" "spec_age_score a b \<le> 1"
  by (auto simp: spec_age_score_def)

lemma spec_score_bounds:
  assumes "0 < building_area a" "0 < building_area b" "0 \<le> d"
  shows "0 < spec_score a b d" "spec_score a b d \<le> 0.55"
proof -
  note ar = spec_area_ratio_bounds[OF assms(1,2)]
  note lo = spec_location_score_bounds(1)[of d] spec_location_score_bounds(2)[OF assms(3)]
  note ag = spec_age_score_bounds[of a b]
  show "0 < spec_score a b d" using ar lo ag unfolding spec_score_def by simp
  show "spec_score a b d \<le> 0.55" using ar lo ag unfolding spec_score_def by simp
qed

lemma collect_results_acc:
  "collect_results g self t acc xs =
     (case collect_results g self t [] xs of Inl e \<Rightarrow> Inl e | Inr ys \<Rightarrow> Inr (acc @ ys))"
proof (induction xs arbitrary: acc)
  case Nil
  then show ?case by simp
next
  case (Cons p ps)
  show ?case
  proof (cases "property_id p \<noteq> property_id t")
    case False
    then show ?thesis using Cons.IH[of acc] by simp
  next
    case True
    show ?thesis
    proof (cases "calculate_similarity_score g self t p")
      case (Inl e)
      then show ?thesis using True by simp
    next
      case (Inr s)
      then show ?thesis
        using True Cons.IH[of "acc @ [(p, s)]"] Cons.IH[of "[(p, s)]"]
        by (simp split: sum.splits)
    qed
  qed
qed

lemma collect_results_ok:
  assumes "\<forall>p\<in>set xs. property_id p \<noteq> property_id t \<longrightarrow>
             (\<exists>s. calculate_similarity_score g self t p = Inr s)"
  shows "collect_results g self t [] xs =
           Inr (map (\<lambda>p. (p, projr (calculate_similarity_score g self t p)))
                    (filter (\<lambda>p. property_id p \<noteq> property_id t) xs))"
  using assms
proof (induction xs)
  case Nil
  then show ?case by simp
next
  case (Cons p ps)
  then have ih: "collect_results g self t [] ps =
           Inr (map (\<lambda>p. (p, projr (calculate_similarity_score g self t p)))
                    (filter (\<lambda>p. property_id p \<noteq> property_id t) ps))"
    by simp
  show ?case
  proof (cases "property_id p \<noteq> property_id t")
    case False
    then show ?thesis using ih by simp
  next
    case True
    then obtain s where s: "calculate_similarity_score g self t p = Inr s"
      using Cons.prems by auto
    show ?thesis
      using True s ih collect_results_acc[of g self t "[(p, s)]" ps] by simp
  qed
qed

lemma length_slice_to: "0 \<le> m \<Longrightarrow> length (slice_to xs m) = min (nat m) (length xs)"
  by (simp add: slice_to_def min.commute)

lemma sample_weights:
  "weight_factors (load_properties ComparableDiscoveryAgent_init db)
     = weight_factors ComparableDiscoveryAgent_init"
  by (simp add: load_properties_def)

lemma sample_fields:
  "property_id (sample_property pid area year) = pid"
  "building_area (sample_property pid area year) = area"
  "year_built (sample_property pid area year) = year"
  "latitude (sample_property pid area year) = 41.8781"
  "longitude (sample_property pid area year) = - 87.6298"
  by (simp_all add: sample_property_def)

lemma taxicab_same_point: "taxicab_miles p p = Inr 0"
  by (simp add: taxicab_miles_def)

lemma find_comparables_ok:
  assumes "\<forall>p\<in>set (properties_db self). property_id p \<noteq> property_id t \<longrightarrow>
             (\<exists>s. calculate_similarity_score g self t p = Inr s)"
  shows "find_comparables g self t m =
           Inr (slice_to (sort_by_score_reverse
                  (map (\<lambda>p. (p, projr (calculate_similarity_score g self t p)))
                       (filter (\<lambda>p. property_id p \<noteq> property_id t) (properties_db self)))) m)"
  by (simp add: find_comparables_def collect_results_ok[OF assms])

lemma set_slice_to: "set (slice_to xs m) \<subseteq> set xs"
  by (auto simp: slice_to_def dest: in_set_takeD)

lemma set_sort_by_score_reverse: "set (sort_by_score_reverse xs) = set xs"
  by (simp add: sort_by_score_reverse_def)

lemma length_sort_by_score_reverse: "length (sort_by_score_reverse xs) = length xs"
  by (simp add: sort_by_score_reverse_def)

lemma sorted_sort_by_score_reverse:
  "sorted_wrt (\<lambda>x y. snd y \<le> snd x) (sort_by_score_reverse xs)"
proof -
  have "sorted (map (\<lambda>x. - snd x) (sort_key (\<lambda>x. - snd x) xs))"
    by (rule sorted_sort_key)
  then show ?thesis
    by (simp add: sort_by_score_reverse_def sorted_map)
qed

lemma stable_sort_by_score_reverse:
  "filter (\<lambda>x. snd x = k) (sort_by_score_reverse xs) = filter (\<lambda>x. snd x = k) xs"
  using sort_key_stable[of "\<lambda>x. - snd x" "- k" xs]
  by (simp add: sort_by_score_reverse_def)

lemma prefix_slice_to: "prefix (slice_to xs m) xs"
  by (simp add: slice_to_def take_is_prefix)

lemma sorted_wrt_slice_to: "sorted_wrt R xs \<Longrightarrow> sorted_wrt R (slice_to xs m)"
  by (simp add: slice_to_def sorted_wrt_take)

lemma filter_length_split:
  "length (filter (\<lambda>p. f p \<noteq> v) xs) + length (filter (\<lambda>p. f p = v) xs) = length xs"
  using sum_length_filter_compl[of "\<lambda>p. f p = v" xs] by (simp add: add.commute)

lemma sample_score:
  "calculate_similarity_score taxicab_miles (load_properties ComparableDiscoveryAgent_init db)
     (sample_property i a y) (sample_property j b z) =
   (if max a b = 0 then Inl ZeroDivisionError
    else Inr (min a b / max a b * 0.30 + 0.10 + max 0 (1 - real_of_int \<bar>y - z\<bar> / 50) * 0.15))"
  by (simp add: calculate_similarity_score_def getitem_init_weights[OF sample_weights]
      sample_fields taxicab_same_point Let_def)

lemma valid_catalog_scores:
  assumes w: "weight_factors self = weight_factors ComparableDiscoveryAgent_init"
    and t: "0 < building_area t"
    and db: "\<forall>p\<in>set (properties_db self). 0 < building_area p
               \<and> (\<exists>d. g (latitude t, longitude t) (latitude p, longitude p) = Inr d)"
  shows "\<forall>p\<in>set (properties_db self). property_id p \<noteq> property_id t \<longrightarrow>
           (\<exists>s. calculate_similarity_score g self t p = Inr s)"
proof (intro ballI impI)
  fix p assume p: "p \<in> set (properties_db self)"
  then obtain d where d: "g (latitude t, longitude t) (latitude p, longitude p) = Inr d"
    and pos: "0 < building_area p"
    using db by blast
  have nz: "max (building_area t) (building_area p) \<noteq> 0"
    using t pos by (simp add: max_def)
  show "\<exists>s. calculate_similarity_score g self t p = Inr s"
    using score_closed_form[where g=g, OF w nz d] by blast
qed

lemma sample_catalog_scores:
  "\<forall>p\<in>set (properties_db (load_properties ComparableDiscoveryAgent_init sample_catalog)).
     property_id p \<noteq> property_id (sample_property pid 50000 2000) \<longrightarrow>
     (\<exists>s. calculate_similarity_score taxicab_miles
            (load_properties ComparableDiscoveryAgent_init sample_catalog)
            (sample_property pid 50000 2000) p = Inr s)"
proof (rule valid_catalog_scores[where g=taxicab_miles, OF sample_weights])
  show "0 < building_area (sample_property pid 50000 2000)"
    by (simp add: sample_fields)
  show "\<forall>p\<in>set (properties_db (load_properties ComparableDiscoveryAgent_init sample_catalog)).
          0 < building_area p
          \<and> (\<exists>d. taxicab_miles (latitude (sample_property pid 50000 2000),
                                   longitude (sample_property pid 50000 2000))
                                  (latitude p, longitude p) = Inr d)"
    by (simp add: load_properties_fields sample_catalog_def sample_fields taxicab_same_point)
qed

lemma system_with_fields:
  "properties_database (system_with ps) = ps"
  "comparable_discovery (system_with ps) = load_properties ComparableDiscoveryAgent_init ps"
  by (simp_all add: system_with_def)

lemma lookup_by_id_None:
  "lookup_by_id db pid = None \<longleftrightarrow> (\<forall>p\<in>set db. property_id p \<noteq> pid)"
  by (auto simp: lookup_by_id_def find_None_iff)

lemma PropertyData_init_sample:
  "PropertyData_init ''2024-01-01T00:00:00'' (sample_dict pid area year)
     = Inr (sample_property pid area year)"
  by (simp add: PropertyData_init_def sample_dict_def sample_property_def flatten_opt_def)

lemma sample_dict_not_empty: "\<not> dict_is_empty (sample_dict pid area year)"
  by (simp add: dict_is_empty_def sample_dict_def)

lemma resolve_target_sample:
  "resolve_target ''2024-01-01T00:00:00'' self None (Some (sample_dict pid area year))
     = Inr (Inr (sample_property pid area year))"
  by (simp add: resolve_target_def sample_dict_not_empty PropertyData_init_sample)

lemma NotFoundError_neq_ArgumentError: "ArgumentError \<noteq> NotFoundError pid"
  by (simp add: ArgumentError_def NotFoundError_def)

lemma find_comparables_scores:
  assumes "\<forall>p\<in>set (properties_db self). property_id p \<noteq> property_id t \<longrightarrow>
             (\<exists>s. calculate_similarity_score g self t p = Inr s)"
  shows "\<exists>res. find_comparables g self t m = Inr res
           \<and> (\<forall>c\<in>set res. fst c \<in> set (properties_db self)
                 \<and> calculate_similarity_score g self t (fst c) = Inr (snd c))"
proof -
  let ?others = "filter (\<lambda>p. property_id p \<noteq> property_id t) (properties_db self)"
  let ?scored = "map (\<lambda>p. (p, projr (calculate_similarity_score g self t p))) ?others"
  let ?res = "slice_to (sort_by_score_reverse ?scored) m"
  have fc: "find_comparables g self t m = Inr ?res"
    by (rule find_comparables_ok[OF assms])
  have sub: "set ?res \<subseteq> set ?scored"
    using set_slice_to[of "sort_by_score_reverse ?scored" m]
    by (simp add: set_sort_by_score_reverse)
  have "fst c \<in> set (properties_db self)
          \<and> calculate_similarity_score g self t (fst c) = Inr (snd c)" if "c \<in> set ?res" for c
  proof -
    from that sub obtain p where p: "p \<in> set ?others"
      and c: "c = (p, projr (calculate_similarity_score g self t p))"
      by auto
    from p assms obtain s where "calculate_similarity_score g self t p = Inr s"
      by auto
    then show ?thesis using p c by simp
  qed
  then show ?thesis using fc by blast
qed

lemma confidence_of_low: "s \<le> 0.6 \<Longrightarrow> confidence_of s = ''Low''"
  by (simp add: confidence_of_def)

lemma sample_analyze:
  "analyze_property_comparables taxicab_miles ''2024-01-01T00:00:00'' now
     (system_with sample_catalog) None (Some (sample_dict ''CUSTOM001'' 50000 2000))
   = Inr (Results (build_results now (sample_property ''CUSTOM001'' 50000 2000)
        [(sample_property ''A'' 50000 2000, 0.55),
         (sample_property ''C'' 50000 1990, 0.52),
         (sample_property ''B'' 25000 2000, 0.40),
         (sample_property ''D'' 25000 2000, 0.40)]))"
  by (simp add: analyze_property_comparables_def resolve_target_sample system_with_fields
      find_comparables_def load_properties_fields sample_catalog_def sample_fields
      sample_score sort_by_score_reverse_def slice_to_def)

subsection \<open>The similarity score\<close>

text \<open>
  C1. On a discovery agent carrying the weights set by its constructor, for two
  records with strictly positive building area on which the distance library
  returns \<open>d\<close> miles, \<^verbatim>\<open>calculate_similarity_score\<close> returns exactly
  area ratio times 0.30 plus location score times 0.10 plus age score times
  0.15, the three terms as the specification defines them. For equal building
  areas, equal years of construction and distance zero (identical coordinates)
  the score is 0.55.
\<close>

theorem similarity_score_formula:
  assumes "weight_factors self = weight_factors ComparableDiscoveryAgent_init"
    and "0 < building_area target" and "0 < building_area candidate"
    and "geodesic_miles (latitude target, longitude target)
                        (latitude candidate, longitude candidate) = Inr d"
  shows "calculate_similarity_score geodesic_miles self target candidate
           = Inr (spec_area_ratio target candidate * 0.30
                  + spec_location_score d * 0.10
                  + spec_age_score target candidate * 0.15)
         \<and> (building_area target = building_area candidate
              \<and> year_built target = year_built candidate
              \<and> d = 0
            \<longrightarrow> calculate_similarity_score geodesic_miles self target candidate = Inr 0.55)"
proof -
  have nz: "max (building_area target) (building_area candidate) \<noteq> 0"
    using assms(2,3) by (simp add: max_def)
  have eq: "calculate_similarity_score geodesic_miles self target candidate
              = Inr (spec_score target candidate d)"
    by (rule score_closed_form[where g=geodesic_miles, OF assms(1) nz assms(4)])
  have same: "spec_score target candidate 0 = 0.55"
    if "building_area target = building_area candidate"
      and "year_built target = year_built candidate"
    using that assms(2,3)
    by (simp add: spec_score_def spec_area_ratio_def spec_location_score_def spec_age_score_def)
  show ?thesis using eq same by (auto simp: spec_score_def)
qed

theorem similarity_score_formula_witness:
  "calculate_similarity_score taxicab_miles (load_properties ComparableDiscoveryAgent_init [])
     (sample_property ''A'' 50000 2000) (sample_property ''B'' 50000 2000) = Inr 0.55
   \<and> calculate_similarity_score taxicab_miles (load_properties ComparableDiscoveryAgent_init [])
     (sample_property ''A'' 50000 2000) (sample_property ''B'' 25000 1990) = Inr 0.37"
proof -
  have a: "(0::real) < building_area (sample_property ''A'' 50000 2000)"
    and b: "(0::real) < building_area (sample_property ''B'' 50000 2000)"
    and b': "(0::real) < building_area (sample_property ''B'' 25000 1990)"
    by (simp_all add: sample_fields)
  have g: "taxicab_miles (latitude (sample_property ''A'' 50000 2000), longitude (sample_property ''A'' 50000 2000))
            (latitude (sample_property ''B'' 50000 2000), longitude (sample_property ''B'' 50000 2000)) = Inr 0"
    and g': "taxicab_miles (latitude (sample_property ''A'' 50000 2000), longitude (sample_property ''A'' 50000 2000))
            (latitude (sample_property ''B'' 25000 1990), longitude (sample_property ''B'' 25000 1990)) = Inr 0"
    by (simp_all add: sample_fields taxicab_same_point)
  show ?thesis
    using similarity_score_formula[where geodesic_miles=taxicab_miles, OF sample_weights a b g, of "[]"]
      similarity_score_formula[where geodesic_miles=taxicab_miles, OF sample_weights a b' g', of "[]"]
    by (simp add: sample_fields spec_area_ratio_def spec_location_score_def spec_age_score_def)
qed

text \<open>
  C4. For two records with strictly positive building area on which the
  distance library returns a non-negative distance,
  \<^verbatim>\<open>calculate_similarity_score\<close> returns a score in the closed interval
  from 0 to 1.
\<close>

theorem similarity_score_in_unit_interval:
  assumes "weight_factors self = weight_factors ComparableDiscoveryAgent_init"
    and "0 < building_area a" and "0 < building_area b"
    and "geodesic_miles (latitude a, longitude a) (latitude b, longitude b) = Inr d"
    and "0 \<le> d"
  shows "\<exists>s. calculate_similarity_score geodesic_miles self a b = Inr s \<and> 0 \<le> s \<and> s \<le> 1"
proof -
  have nz: "max (building_area a) (building_area b) \<noteq> 0"
    using assms(2,3) by (simp add: max_def)
  have "calculate_similarity_score geodesic_miles self a b = Inr (spec_score a b d)"
    by (rule score_closed_form[where g=geodesic_miles, OF assms(1) nz assms(4)])
  moreover have "0 \<le> spec_score a b d" "spec_score a b d \<le> 1"
    using spec_score_bounds[OF assms(2,3,5)] by simp_all
  ultimately show ?thesis by simp
qed

theorem similarity_score_in_unit_interval_witness:
  "\<exists>s. calculate_similarity_score taxicab_miles (load_properties ComparableDiscoveryAgent_init [])
         (sample_property ''A'' 50000 2000) (sample_property ''B'' 25000 1990) = Inr s
       \<and> 0 \<le> s \<and> s \<le> 1"
proof -
  have a: "(0::real) < building_area (sample_property ''A'' 50000 2000)"
    and b: "(0::real) < building_area (sample_property ''B'' 25000 1990)"
    by (simp_all add: sample_fields)
  have g: "taxicab_miles (latitude (sample_property ''A'' 50000 2000), longitude (sample_property ''A'' 50000 2000))
            (latitude (sample_property ''B'' 25000 1990), longitude (sample_property ''B'' 25000 1990)) = Inr 0"
    by (simp add: sample_fields taxicab_same_point)
  show ?thesis
    by (rule similarity_score_in_unit_interval[where geodesic_miles=taxicab_miles, OF sample_weights a b g]) simp
qed

text \<open>
  C5. \<^verbatim>\<open>calculate_similarity_score\<close> is symmetric: for two records with
  strictly positive building area whose distance is the same in both
  directions, the call with the arguments exchanged returns the same score.
\<close>

theorem similarity_score_symmetric:
  assumes "weight_factors self = weight_factors ComparableDiscoveryAgent_init"
    and "0 < building_area a" and "0 < building_area b"
    and "geodesic_miles (latitude a, longitude a) (latitude b, longitude b) = Inr d"
    and "geodesic_miles (latitude b, longitude b) (latitude a, longitude a) = Inr d"
  shows "\<exists>s. calculate_similarity_score geodesic_miles self a b = Inr s
            \<and> calculate_similarity_score geodesic_miles self b a = Inr s"
proof -
  have nz: "max (building_area a) (building_area b) \<noteq> 0" "max (building_area b) (building_area a) \<noteq> 0"
    using assms(2,3) by (simp_all add: max_def)
  have ab: "calculate_similarity_score geodesic_miles self a b = Inr (spec_score a b d)"
    by (rule score_closed_form[where g=geodesic_miles, OF assms(1) nz(1) assms(4)])
  have ba: "calculate_similarity_score geodesic_miles self b a = Inr (spec_score b a d)"
    by (rule score_closed_form[where g=geodesic_miles, OF assms(1) nz(2) assms(5)])
  have "spec_score a b d = spec_score b a d"
    by (simp add: spec_score_def spec_area_ratio_def spec_age_score_def min.commute max.commute
        abs_minus_commute)
  then show ?thesis using ab ba by simp
qed

theorem similarity_score_symmetric_witness:
  "calculate_similarity_score taxicab_miles (load_properties ComparableDiscoveryAgent_init [])
         (sample_property ''A'' 50000 2000) (sample_property ''B'' 25000 1990)
   = calculate_similarity_score taxicab_miles (load_properties ComparableDiscoveryAgent_init [])
         (sample_property ''B'' 25000 1990) (sample_property ''A'' 50000 2000)"
proof -
  have a: "(0::real) < building_area (sample_property ''A'' 50000 2000)"
    and b: "(0::real) < building_area (sample_property ''B'' 25000 1990)"
    by (simp_all add: sample_fields)
  have g: "taxicab_miles (latitude (sample_property ''A'' 50000 2000), longitude (sample_property ''A'' 50000 2000))
            (latitude (sample_property ''B'' 25000 1990), longitude (sample_property ''B'' 25000 1990)) = Inr 0"
    and g': "taxicab_miles (latitude (sample_property ''B'' 25000 1990), longitude (sample_property ''B'' 25000 1990))
            (latitude (sample_property ''A'' 50000 2000), longitude (sample_property ''A'' 50000 2000)) = Inr 0"
    by (simp_all add: sample_fields taxicab_same_point)
  show ?thesis
    using similarity_score_symmetric[where geodesic_miles=taxicab_miles, OF sample_weights[of "[]"] a b g g'] by auto
qed

subsection \<open>The comparable finder\<close>

text \<open>
  C3, as the code has it. \<^verbatim>\<open>find_comparables\<close> returns a list whenever
  every score it computes is returned. For \<^verbatim>\<open>max_results\<close> at least 0 the
  length of that list is the smaller of \<^verbatim>\<open>max_results\<close> and the number of
  catalog records whose \<^verbatim>\<open>property_id\<close> differs from the target's. When
  exactly one catalog record carries the target's identifier this is the
  smaller of \<^verbatim>\<open>max_results\<close> and the catalog size less one.
\<close>

theorem find_comparables_length:
  assumes "\<forall>p\<in>set (properties_db self). property_id p \<noteq> property_id target \<longrightarrow>
             (\<exists>s. calculate_similarity_score geodesic_miles self target p = Inr s)"
    and "0 \<le> max_results"
  shows "\<exists>res. find_comparables geodesic_miles self target max_results = Inr res
           \<and> int (length res) =
               min max_results
                 (int (length (filter (\<lambda>p. property_id p \<noteq> property_id target)
                                      (properties_db self))))
           \<and> (length (filter (\<lambda>p. property_id p = property_id target) (properties_db self)) = 1
                \<longrightarrow> int (length res) = min max_results (int (length (properties_db self)) - 1))"
proof -
  let ?others = "filter (\<lambda>p. property_id p \<noteq> property_id target) (properties_db self)"
  let ?res = "slice_to (sort_by_score_reverse
                (map (\<lambda>p. (p, projr (calculate_similarity_score geodesic_miles self target p)))
                     ?others)) max_results"
  have fc: "find_comparables geodesic_miles self target max_results = Inr ?res"
    by (rule find_comparables_ok[OF assms(1)])
  have "length ?res = min (nat max_results) (length ?others)"
    by (simp add: length_slice_to[OF assms(2)] length_sort_by_score_reverse)
  then have len: "int (length ?res) = min max_results (int (length ?others))"
    using assms(2) by linarith
  have split: "length ?others
                 + length (filter (\<lambda>p. property_id p = property_id target) (properties_db self))
               = length (properties_db self)"
    by (rule filter_length_split)
  have one: "int (length ?res) = min max_results (int (length (properties_db self)) - 1)"
    if "length (filter (\<lambda>p. property_id p = property_id target) (properties_db self)) = 1"
    using len split that by simp
  show ?thesis using fc len one by blast
qed

theorem find_comparables_length_witness:
  "\<exists>res. find_comparables taxicab_miles
            (load_properties ComparableDiscoveryAgent_init sample_catalog)
            (sample_property ''A'' 50000 2000) 2 = Inr res
         \<and> int (length res) = 2
         \<and> int (length res) = min 2 (int (length sample_catalog) - 1)"
proof -
  have two: "(0::int) \<le> 2" by simp
  have one: "length (filter (\<lambda>p. property_id p = property_id (sample_property ''A'' 50000 2000))
               (properties_db (load_properties ComparableDiscoveryAgent_init sample_catalog))) = 1"
    by (simp add: load_properties_fields sample_catalog_def sample_fields)
  show ?thesis
    using find_comparables_length[where geodesic_miles=taxicab_miles,
        OF sample_catalog_scores[of "''A''"] two] one
    by (simp add: load_properties_fields sample_catalog_def sample_fields)
qed

text \<open>
  C3, as stated, fails for a target that is not in the catalog (the ad-hoc
  record of the module's second example): against a catalog of one record the
  finder returns that record, a list of length 1, where the claimed length is
  \<open>min 5 (1 - 1) = 0\<close>.
\<close>

theorem find_comparables_length_counterexample:
  "find_comparables taxicab_miles
     (load_properties ComparableDiscoveryAgent_init [sample_property ''B'' 50000 2000])
     (sample_property ''CUSTOM001'' 50000 2000) 5
     = Inr [(sample_property ''B'' 50000 2000, 0.55)]
   \<and> int (length [(sample_property ''B'' 50000 2000, 0.55 :: real)])
       \<noteq> min 5 (int (length [sample_property ''B'' 50000 2000]) - 1)"
  by (simp add: find_comparables_def load_properties_fields sample_fields
      sample_score sort_by_score_reverse_def slice_to_def)

text \<open>
  C6. No pair returned by \<^verbatim>\<open>find_comparables\<close> holds a record whose
  \<^verbatim>\<open>property_id\<close> equals the target's, for a catalog of any size.
\<close>

theorem find_comparables_excludes_target:
  assumes "\<forall>p\<in>set (properties_db self). property_id p \<noteq> property_id target \<longrightarrow>
             (\<exists>s. calculate_similarity_score geodesic_miles self target p = Inr s)"
  shows "\<exists>res. find_comparables geodesic_miles self target max_results = Inr res
           \<and> (\<forall>c\<in>set res. property_id (fst c) \<noteq> property_id target)"
proof -
  let ?others = "filter (\<lambda>p. property_id p \<noteq> property_id target) (properties_db self)"
  let ?scored = "map (\<lambda>p. (p, projr (calculate_similarity_score geodesic_miles self target p))) ?others"
  let ?res = "slice_to (sort_by_score_reverse ?scored) max_results"
  have fc: "find_comparables geodesic_miles self target max_results = Inr ?res"
    by (rule find_comparables_ok[OF assms(1)])
  have "set ?res \<subseteq> set ?scored"
    using set_slice_to[of "sort_by_score_reverse ?scored" max_results]
    by (simp add: set_sort_by_score_reverse)
  then have "\<forall>c\<in>set ?res. property_id (fst c) \<noteq> property_id target"
    by auto
  then show ?thesis using fc by blast
qed

theorem find_comparables_excludes_target_witness:
  "\<exists>res. find_comparables taxicab_miles
            (load_properties ComparableDiscoveryAgent_init sample_catalog)
            (sample_property ''A'' 50000 2000) 5 = Inr res
         \<and> length res = 3
         \<and> (\<forall>c\<in>set res. property_id (fst c) \<noteq> ''A'')"
proof -
  have len: "find_comparables taxicab_miles
            (load_properties ComparableDiscoveryAgent_init sample_catalog)
            (sample_property ''A'' 50000 2000) 5 = Inr res \<Longrightarrow> length res = 3" for res
    by (auto simp add: find_comparables_def load_properties_fields sample_catalog_def sample_fields
      sample_score sort_by_score_reverse_def slice_to_def)
  show ?thesis
    using find_comparables_excludes_target[where geodesic_miles=taxicab_miles
        and max_results=5, OF sample_catalog_scores[of "''A''"]] len
    by (auto simp add: sample_fields)
qed

text \<open>
  C7. The list returned by \<^verbatim>\<open>find_comparables\<close> is sorted by
  non-increasing score, and the tie-break is stable: for every score \<open>k\<close>,
  the returned records with score \<open>k\<close> are, in the order returned, an initial
  segment of the catalog records other than the target that score \<open>k\<close>, in
  catalog order.
\<close>

theorem find_comparables_sorted_stable:
  assumes "\<forall>p\<in>set (properties_db self). property_id p \<noteq> property_id target \<longrightarrow>
             (\<exists>s. calculate_similarity_score geodesic_miles self target p = Inr s)"
  shows "\<exists>res. find_comparables geodesic_miles self target max_results = Inr res
           \<and> sorted_wrt (\<lambda>x y. snd y \<le> snd x) res
           \<and> (\<forall>k. prefix (map fst (filter (\<lambda>x. snd x = k) res))
                          (filter (\<lambda>p. property_id p \<noteq> property_id target
                                       \<and> calculate_similarity_score geodesic_miles self target p = Inr k)
                                  (properties_db self)))"
proof -
  let ?sc = "\<lambda>p. calculate_similarity_score geodesic_miles self target p"
  let ?others = "filter (\<lambda>p. property_id p \<noteq> property_id target) (properties_db self)"
  let ?scored = "map (\<lambda>p. (p, projr (?sc p))) ?others"
  let ?res = "slice_to (sort_by_score_reverse ?scored) max_results"
  have fc: "find_comparables geodesic_miles self target max_results = Inr ?res"
    by (rule find_comparables_ok[OF assms(1)])
  have srt: "sorted_wrt (\<lambda>x y. snd y \<le> snd x) ?res"
    by (rule sorted_wrt_slice_to[OF sorted_sort_by_score_reverse])
  have stab: "prefix (map fst (filter (\<lambda>x. snd x = k) ?res))
                     (filter (\<lambda>p. property_id p \<noteq> property_id target \<and> ?sc p = Inr k)
                             (properties_db self))" for k
  proof -
    have "prefix (filter (\<lambda>x. snd x = k) ?res)
                 (filter (\<lambda>x. snd x = k) (sort_by_score_reverse ?scored))"
      by (rule filter_mono_prefix[OF prefix_slice_to])
    then have "prefix (filter (\<lambda>x. snd x = k) ?res) (filter (\<lambda>x. snd x = k) ?scored)"
      by (simp only: stable_sort_by_score_reverse)
    then have "prefix (map fst (filter (\<lambda>x. snd x = k) ?res))
                      (map fst (filter (\<lambda>x. snd x = k) ?scored))"
      by (rule map_mono_prefix)
    moreover have "map fst (filter (\<lambda>x. snd x = k) ?scored)
                     = filter (\<lambda>p. projr (?sc p) = k) ?others"
      by (simp add: filter_map comp_def)
    moreover have "filter (\<lambda>p. projr (?sc p) = k) ?others
                     = filter (\<lambda>p. property_id p \<noteq> property_id target \<and> ?sc p = Inr k)
                              (properties_db self)"
    proof -
      have "filter (\<lambda>p. projr (?sc p) = k) ?others
              = filter (\<lambda>p. property_id p \<noteq> property_id target \<and> projr (?sc p) = k)
                       (properties_db self)"
        by (simp add: conj_commute)
      also have "\<dots> = filter (\<lambda>p. property_id p \<noteq> property_id target \<and> ?sc p = Inr k)
                              (properties_db self)"
        using assms(1) by (intro filter_cong refl) auto
      finally show ?thesis .
    qed
    ultimately show ?thesis by simp
  qed
  show ?thesis using fc srt stab by blast
qed

theorem find_comparables_sorted_stable_witness:
  "\<exists>res. find_comparables taxicab_miles
            (load_properties ComparableDiscoveryAgent_init sample_catalog)
            (sample_property ''A'' 50000 2000) 5 = Inr res
         \<and> map (\<lambda>c. (property_id (fst c), snd c)) res = [(''C'', 0.52), (''B'', 0.40), (''D'', 0.40)]
         \<and> sorted_wrt (\<lambda>x y. snd y \<le> snd x) res
         \<and> prefix (map fst (filter (\<lambda>x. snd x = 0.40) res))
                  [sample_property ''B'' 25000 2000, sample_property ''D'' 25000 2000]"
proof -
  have val: "find_comparables taxicab_miles
            (load_properties ComparableDiscoveryAgent_init sample_catalog)
            (sample_property ''A'' 50000 2000) 5 = Inr res \<Longrightarrow>
          map (\<lambda>c. (property_id (fst c), snd c)) res = [(''C'', 0.52), (''B'', 0.40), (''D'', 0.40)]" for res
    by (auto simp add: find_comparables_def load_properties_fields sample_catalog_def sample_fields
      sample_score sort_by_score_reverse_def slice_to_def)
  have cat: "filter (\<lambda>p. property_id p \<noteq> property_id (sample_property ''A'' 50000 2000)
                \<and> calculate_similarity_score taxicab_miles
                     (load_properties ComparableDiscoveryAgent_init sample_catalog)
                     (sample_property ''A'' 50000 2000) p = Inr 0.40)
               (properties_db (load_properties ComparableDiscoveryAgent_init sample_catalog))
             = [sample_property ''B'' 25000 2000, sample_property ''D'' 25000 2000]"
    by (simp add: load_properties_fields sample_catalog_def sample_fields sample_score)
  obtain res where res: "find_comparables taxicab_miles
            (load_properties ComparableDiscoveryAgent_init sample_catalog)
            (sample_property ''A'' 50000 2000) 5 = Inr res"
     and srt: "sorted_wrt (\<lambda>x y. snd y \<le> snd x) res"
     and stab: "\<forall>k. prefix (map fst (filter (\<lambda>x. snd x = k) res))
                  (filter (\<lambda>p. property_id p \<noteq> property_id (sample_property ''A'' 50000 2000)
                \<and> calculate_similarity_score taxicab_miles
                     (load_properties ComparableDiscoveryAgent_init sample_catalog)
                     (sample_property ''A'' 50000 2000) p = Inr k)
               (properties_db (load_properties ComparableDiscoveryAgent_init sample_catalog)))"
    using find_comparables_sorted_stable[where geodesic_miles=taxicab_miles
        and max_results=5, OF sample_catalog_scores[of "''A''"]]
    by blast
  have "prefix (map fst (filter (\<lambda>x. snd x = 0.40) res))
                  [sample_property ''B'' 25000 2000, sample_property ''D'' 25000 2000]"
    using stab[rule_format, of "0.40"] cat by simp
  then show ?thesis
    by (intro exI[of _ res] conjI res srt val[OF res])
qed

subsection \<open>The analysis facade\<close>

text \<open>
  C8. A call of \<^verbatim>\<open>analyze_property_comparables\<close> with neither a
  \<^verbatim>\<open>property_id\<close> nor a \<^verbatim>\<open>property_data\<close> raises nothing and returns the
  error dictionary that reports the missing selector.
\<close>

theorem analyze_neither_selector:
  "analyze_property_comparables geodesic_miles now_created now_analysis self None None
     = Inr ArgumentError"
  by (simp add: analyze_property_comparables_def resolve_target_def)

text \<open>
  C9, as the code has it. For every non-empty identifier that matches no record
  of \<^verbatim>\<open>properties_database\<close>, \<^verbatim>\<open>analyze_property_comparables\<close>
  called with that identifier returns the not-found error dictionary, whatever
  \<^verbatim>\<open>property_data\<close> is passed along.
\<close>

theorem analyze_unknown_id:
  assumes "pid \<noteq> []"
    and "\<forall>p\<in>set (properties_database self). property_id p \<noteq> pid"
  shows "analyze_property_comparables geodesic_miles now_created now_analysis self (Some pid) data_arg
           = Inr (NotFoundError pid)"
proof -
  have "lookup_by_id (properties_database self) pid = None"
    using assms(2) by (simp add: lookup_by_id_None)
  then have "resolve_target now_created self (Some pid) data_arg = Inr (Inl (NotFoundError pid))"
    using assms(1) by (simp add: resolve_target_def)
  then show ?thesis
    by (simp add: analyze_property_comparables_def)
qed

theorem analyze_unknown_id_witness:
  "analyze_property_comparables taxicab_miles ''t0'' ''t1'' (system_with sample_catalog)
     (Some ''ZZ9999'') None
   = Inr (ErrorDict ''Property with ID ZZ9999 not found'')"
proof -
  have ne: "''ZZ9999'' \<noteq> []" by simp
  have no: "\<forall>p\<in>set (properties_database (system_with sample_catalog)). property_id p \<noteq> ''ZZ9999''"
    by (simp add: system_with_fields sample_catalog_def sample_fields)
  show ?thesis
    using analyze_unknown_id[OF ne no, of taxicab_miles "''t0''" "''t1''" None]
    by (simp add: NotFoundError_def)
qed

text \<open>
  C9, as stated, fails for the empty identifier: \<^verbatim>\<open>if property_id:\<close>
  takes the empty string for an absent argument, so the call falls through to
  the final branch and reports a missing selector instead of a missing
  property.
\<close>

theorem analyze_unknown_id_counterexample:
  "lookup_by_id (properties_database (system_with sample_catalog)) [] = None
   \<and> analyze_property_comparables taxicab_miles ''t0'' ''t1'' (system_with sample_catalog)
        (Some []) None = Inr ArgumentError
   \<and> ArgumentError \<noteq> NotFoundError []"
  by (simp add: lookup_by_id_None system_with_fields sample_catalog_def sample_fields
      analyze_property_comparables_def resolve_target_def NotFoundError_neq_ArgumentError)

text \<open>
  C10. When the target resolves to a record of strictly positive building area,
  the discovery agent carries the constructor's weights, every catalog record
  has strictly positive building area and the distance library returns a
  non-negative distance from the target to each of them, the analysis returns
  a result in which every comparable has confidence level \<^verbatim>\<open>Low\<close>:
  no score exceeds 0.55.
\<close>

theorem comparables_confidence_low:
  assumes w: "weight_factors (comparable_discovery self)
                = weight_factors ComparableDiscoveryAgent_init"
    and tgt: "resolve_target now_created self pid_arg data_arg = Inr (Inr target)"
    and pos: "0 < building_area target"
    and db: "\<forall>p\<in>set (properties_db (comparable_discovery self)).
               0 < building_area p
               \<and> (\<exists>d. geodesic_miles (latitude target, longitude target)
                                      (latitude p, longitude p) = Inr d \<and> 0 \<le> d)"
  shows "\<exists>r. analyze_property_comparables geodesic_miles now_created now_analysis self
                pid_arg data_arg = Inr (Results r)
            \<and> target_property r = target
            \<and> (\<forall>c\<in>set (comparables r). confidence_level c = ''Low'')"
proof -
  let ?agent = "comparable_discovery self"
  have db': "\<forall>p\<in>set (properties_db ?agent). 0 < building_area p
               \<and> (\<exists>d. geodesic_miles (latitude target, longitude target)
                                      (latitude p, longitude p) = Inr d)"
    using db by blast
  have scored: "\<forall>p\<in>set (properties_db ?agent). property_id p \<noteq> property_id target \<longrightarrow>
             (\<exists>s. calculate_similarity_score geodesic_miles ?agent target p = Inr s)"
    by (rule valid_catalog_scores[where g=geodesic_miles, OF w pos db'])
  obtain cs where cs: "find_comparables geodesic_miles ?agent target 5 = Inr cs"
    and each: "\<forall>c\<in>set cs. fst c \<in> set (properties_db ?agent)
                 \<and> calculate_similarity_score geodesic_miles ?agent target (fst c) = Inr (snd c)"
    using find_comparables_scores[OF scored, of 5] by blast
  have low: "confidence_of (snd c) = ''Low''" if "c \<in> set cs" for c
  proof -
    from that each have mem: "fst c \<in> set (properties_db ?agent)"
      and sc: "calculate_similarity_score geodesic_miles ?agent target (fst c) = Inr (snd c)"
      by auto
    from mem db obtain d where d: "geodesic_miles (latitude target, longitude target)
                                      (latitude (fst c), longitude (fst c)) = Inr d"
      and d0: "0 \<le> d" and pc: "0 < building_area (fst c)"
      by blast
    have nz: "max (building_area target) (building_area (fst c)) \<noteq> 0"
      using pos pc by (simp add: max_def)
    have "snd c = spec_score target (fst c) d"
      using score_closed_form[where g=geodesic_miles, OF w nz d] sc by simp
    then have "snd c \<le> 0.55"
      using spec_score_bounds(2)[OF pos pc d0] by simp
    then show ?thesis by (intro confidence_of_low) simp
  qed
  let ?r = "build_results now_analysis target cs"
  have "analyze_property_comparables geodesic_miles now_created now_analysis self
                pid_arg data_arg = Inr (Results ?r)"
    by (simp add: analyze_property_comparables_def tgt cs)
  moreover have "target_property ?r = target"
    by (simp add: build_results_def)
  moreover have "\<forall>c\<in>set (comparables ?r). confidence_level c = ''Low''"
    using low by (auto simp: build_results_def make_comparable_def)
  ultimately show ?thesis by blast
qed

theorem comparables_confidence_low_witness:
  "\<exists>r. analyze_property_comparables taxicab_miles ''2024-01-01T00:00:00'' ''2024-01-02T00:00:00''
          (system_with sample_catalog) None (Some (sample_dict ''CUSTOM001'' 50000 2000))
        = Inr (Results r)
       \<and> length (comparables r) = 4
       \<and> (\<forall>c\<in>set (comparables r). confidence_level c = ''Low'')"
proof -
  have w: "weight_factors (comparable_discovery (system_with sample_catalog))
             = weight_factors ComparableDiscoveryAgent_init"
    by (simp add: system_with_fields load_properties_fields)
  have pos: "0 < building_area (sample_property ''CUSTOM001'' 50000 2000)"
    by (simp add: sample_fields)
  have db: "\<forall>p\<in>set (properties_db (comparable_discovery (system_with sample_catalog))).
              0 < building_area p
              \<and> (\<exists>d. taxicab_miles (latitude (sample_property ''CUSTOM001'' 50000 2000),
                                     longitude (sample_property ''CUSTOM001'' 50000 2000))
                                    (latitude p, longitude p) = Inr d \<and> 0 \<le> d)"
    by (simp add: system_with_fields load_properties_fields sample_catalog_def sample_fields
        taxicab_same_point)
  obtain r where r: "analyze_property_comparables taxicab_miles ''2024-01-01T00:00:00''
          ''2024-01-02T00:00:00'' (system_with sample_catalog) None
          (Some (sample_dict ''CUSTOM001'' 50000 2000)) = Inr (Results r)"
    and low: "\<forall>c\<in>set (comparables r). confidence_level c = ''Low''"
    using comparables_confidence_low[where geodesic_miles=taxicab_miles, OF w resolve_target_sample pos db]
    by blast
  have "length (comparables r) = 4"
    using r by (auto simp: sample_analyze build_results_def)
  then show ?thesis using r low by blast
qed

text \<open>
  C2 at a failing input. The ad-hoc record below has building area -50000, so
  \<^verbatim>\<open>_validate_property_data\<close> rejects it; all the same
  \<^verbatim>\<open>analyze_property_comparables\<close> builds the record, scores it against
  the catalog and returns an analysis, with similarity score -0.05.
\<close>

theorem analyze_unvalidated_record:
  "\<not> validate_property_data (sample_dict ''BAD001'' (- 50000) 2000)
   \<and> analyze_property_comparables taxicab_miles ''2024-01-01T00:00:00'' ''2024-01-02T00:00:00''
       (system_with [sample_property ''A'' 50000 2000]) None
       (Some (sample_dict ''BAD001'' (- 50000) 2000))
     = Inr (Results
         \<lparr> target_property = sample_property ''BAD001'' (- 50000) 2000,
           comparables =
             [\<lparr> comp_property = sample_property ''A'' 50000 2000,
                similarity_score = - 0.05,
                confidence_level = ''Low'' \<rparr>],
           summary =
             \<lparr> total_comparables_found = 1,
               avg_similarity_score = - 0.05,
               analysis_date = ''2024-01-02T00:00:00'' \<rparr> \<rparr>)"
proof -
  have bad: "\<not> validate_property_data (sample_dict ''BAD001'' (- 50000) 2000)"
    by (simp add: validate_property_data_def sample_dict_def)
  have fc: "find_comparables taxicab_miles
              (load_properties ComparableDiscoveryAgent_init [sample_property ''A'' 50000 2000])
              (sample_property ''BAD001'' (- 50000) 2000) 5
            = Inr [(sample_property ''A'' 50000 2000, - 0.05)]"
    by (simp add: find_comparables_def load_properties_fields sample_fields
        sample_score sort_by_score_reverse_def slice_to_def)
  have r3: "round3 (- 0.05) = - 0.05"
    by (simp add: round3_def Let_def)
  have "analyze_property_comparables taxicab_miles ''2024-01-01T00:00:00'' ''2024-01-02T00:00:00''
       (system_with [sample_property ''A'' 50000 2000]) None
       (Some (sample_dict ''BAD001'' (- 50000) 2000))
     = Inr (Results (build_results ''2024-01-02T00:00:00''
             (sample_property ''BAD001'' (- 50000) 2000)
             [(sample_property ''A'' 50000 2000, - 0.05)]))"
    by (simp add: analyze_property_comparables_def resolve_target_sample system_with_fields fc)
  then show ?thesis
    using bad r3 by (simp add: build_results_def make_comparable_def confidence_of_def)
qed

end
